theory Spec2Isabelle
  imports Complex_Main
begin

section \<open>Paths: the parts of \<open>os.path\<close> the validators use\<close>

text \<open>
  Paths are POSIX paths over single-byte characters. \<open>rfind\<close> is \<open>str.rfind\<close>: the index
  of the last occurrence of a character, or \<open>-1\<close>.
\<close>

fun rfind :: "string \<Rightarrow> char \<Rightarrow> int" where
  "rfind [] c = - 1"
| "rfind (x # xs) c =
     (let r = rfind xs c in if 0 \<le> r then r + 1 else if x = c then 0 else - 1)"

text \<open>
  The loop of \<open>genericpath._splitext\<close> that skips leading dots: it answers whether some
  character in \<open>p[filenameIndex:dotIndex]\<close> is not a dot, which is when the function
  returns a non-empty extension.
\<close>

function skip_leading_dots :: "string \<Rightarrow> int \<Rightarrow> int \<Rightarrow> bool" where
  "skip_leading_dots p filenameIndex dotIndex =
     (if filenameIndex < dotIndex then
        (if take 1 (drop (nat filenameIndex) p) \<noteq> ''.'' then True
         else skip_leading_dots p (filenameIndex + 1) dotIndex)
      else False)"
  by pat_completeness auto
termination
  by (relation "measure (\<lambda>(p, filenameIndex, dotIndex). nat (dotIndex - filenameIndex))") auto

declare skip_leading_dots.simps [simp del]

definition splitext :: "string \<Rightarrow> string \<times> string" where
  "splitext p =
     (let sepIndex = rfind p (CHR ''/'');
          dotIndex = rfind p (CHR ''.'')
      in if dotIndex > sepIndex \<and> skip_leading_dots p (sepIndex + 1) dotIndex
         then (take (nat dotIndex) p, drop (nat dotIndex) p)
         else (p, []))"

definition basename :: "string \<Rightarrow> string" where
  "basename p = drop (nat (rfind p (CHR ''/'') + 1)) p"

text \<open>\<open>str.lower\<close> on ASCII letters; every other character is left as it is.\<close>

definition lower_char :: "char \<Rightarrow> char" where
  "lower_char c =
     (case map_of (zip ''ABCDEFGHIJKLMNOPQRSTUVWXYZ'' ''abcdefghijklmnopqrstuvwxyz'') c of
        Some l \<Rightarrow> l
      | None \<Rightarrow> c)"

definition lower :: "string \<Rightarrow> string" where
  "lower s = map lower_char s"

definition file_ext_of :: "string \<Rightarrow> string" where
  "file_ext_of audio_path = lower (snd (splitext audio_path))"

section \<open>Data model\<close>

text \<open>
  The dictionary both validators build. Python floats are idealised as rationals: the
  size in MB is a byte count divided by \<open>2 ^ 20\<close>, a duration is a frame count divided by
  a sample rate or a number read from the tags.
\<close>

record audio_details =
  duration :: rat
  channels :: int
  sample_rate :: int
  file_size_mb :: rat

text \<open>
  Every \<open>raise\<close> site of the package is a constructor; the values interpolated into the
  message are its arguments. All but \<open>FileNotFound\<close> (a \<open>FileNotFoundError\<close>), \<open>OSError\<close>,
  \<open>TypeError\<close>, \<open>RequestException\<close> and \<open>JSONDecodeError\<close> are \<open>ValueError\<close>s in the source.
\<close>

datatype error =
    FileNotFound string
      \<comment> \<open>\<open>Audio file not found: {audio_path}\<close>\<close>
  | UnsupportedExtension string "string list"
      \<comment> \<open>\<open>Unsupported file type: {file_ext}. Supported types: {...}\<close>\<close>
  | FileTooLarge rat rat
      \<comment> \<open>\<open>Audio file exceeds {limit} MB limit. Current size: {file_size_mb} MB\<close>\<close>
  | FileTooShort rat rat
      \<comment> \<open>\<open>Audio file too short. Minimum length is {minimum} seconds. Current length: {duration}\<close>\<close>
  | UnsupportedFormat "string list"
      \<comment> \<open>\<open>Unsupported response format. Choose from: {...}\<close>\<close>
  | ApiError int string
      \<comment> \<open>\<open>Transcription request failed: {status_code} - {text}\<close>\<close>
  | RequestException string
      \<comment> \<open>raised by \<open>requests.post\<close>, re-raised\<close>
  | JSONDecodeError
      \<comment> \<open>raised by \<open>response.json()\<close>, re-raised\<close>
  | UnsupportedExportFormat string
      \<comment> \<open>\<open>Unsupported export format: {output_format}\<close>\<close>
  | OSError string
      \<comment> \<open>\<open>open\<close> failing on a path\<close>
  | TypeError
      \<comment> \<open>\<open>f.write\<close> given something that is not a string\<close>
  | PrintFailed string
      \<comment> \<open>\<open>print\<close> raising on this line (\<open>UnicodeEncodeError\<close>, or an error of the stream)\<close>

text \<open>
  A parsed JSON document, as \<open>response.json()\<close> returns it. A dictionary is the list of its
  items in insertion order. \<open>JFloat m e\<close> is the finite float that is written \<open>m\<close> times ten
  to the power \<open>e\<close>: a float is idealised as the decimal its \<open>repr\<close> shows. A string is a
  list of characters with code points below 256.
\<close>

datatype json =
    JNull
  | JBool bool
  | JInt int
  | JFloat int int
  | JStr string
  | JArr "json list"
  | JObj "(string \<times> json) list"

text \<open>The multipart request handed to \<open>requests.post\<close>.\<close>

record request =
  url :: string
  authorization :: string
  form_data :: "(string \<times> string) list"
  file_name :: string
  file_path :: string
  file_content_type :: string

record response =
  status_code :: int
  response_text :: string
  json_body :: "json option"
    \<comment> \<open>what \<open>response.json()\<close> returns; \<open>None\<close> when it raises \<open>JSONDecodeError\<close>\<close>

subsection \<open>What the libraries and the outside world answer\<close>

text \<open>
  \<open>SfOpened frames samplerate channels\<close>: \<open>sf.SoundFile(path)\<close> opened the file, with
  \<open>len(audio_file)\<close>, \<open>audio_file.samplerate\<close> and \<open>audio_file.channels\<close>.
\<close>

datatype soundfile_outcome = SfRaises | SfOpened int int int

text \<open>
  \<open>MutagenRaises\<close>: an exception inside the second \<open>try\<close> block (all of them happen before
  its first assignment). \<open>MutagenNoInfo\<close>: \<open>mutagen.File\<close> returned something without an
  \<open>info\<close> attribute (\<open>None\<close> for a type it does not know). \<open>MutagenInfo length channels
  sample_rate\<close>: an \<open>info\<close> object; \<open>channels\<close> and \<open>sample_rate\<close> are read with \<open>getattr\<close>
  and a default, so they may be absent.
\<close>

datatype mutagen_outcome = MutagenRaises | MutagenNoInfo | MutagenInfo rat "int option" "int option"

text \<open>
  \<open>WaveOpened nchannels framerate nframes\<close>: \<open>wave.open(path, 'rb')\<close> opened the file and
  these are what its three getters return.
\<close>

datatype wave_outcome = WaveRaises | WaveOpened int int int

datatype post_outcome = PostRaises string | PostReturns response

record env =
  path_exists :: "string \<Rightarrow> bool"
  getsize :: "string \<Rightarrow> nat"
  soundfile_open :: "string \<Rightarrow> soundfile_outcome"
  mutagen_file :: "string \<Rightarrow> mutagen_outcome"
  wave_open :: "string \<Rightarrow> wave_outcome"
  can_open :: "string \<Rightarrow> bool"
  print_ok :: "string \<Rightarrow> bool"
  requests_post :: "request \<Rightarrow> post_outcome"

text \<open>
  The effects a call leaves behind, in order: each probing attempt, each file handle opened
  (\<open>FileOpen path mode\<close>), written to and closed, and the HTTP request. Console output
  leaves no effect. The \<open>print\<close> calls of the validators are left out; those of
  \<open>transcribe\<close> stand between \<open>open\<close> and \<open>try\<close>, and there a \<open>print\<close> that raises is an exit
  of its own: \<open>print_ok e line\<close> says that standard output takes the line.
\<close>

datatype event =
    ProbeSoundfile string
  | ProbeMutagen string
  | ProbeWave string
  | FileOpen string string
  | FileWrite string string
  | FileClose string
  | HttpPost request

text \<open>A computation: the effects it performed, and the exception it raised or its value.\<close>

type_synonym 'a io = "event list \<times> (error + 'a)"

fun is_http_post :: "event \<Rightarrow> bool" where
  "is_http_post (HttpPost r) = True"
| "is_http_post e = False"

fun is_file_open :: "event \<Rightarrow> bool" where
  "is_file_open (FileOpen p m) = True"
| "is_file_open e = False"

text \<open>
  The handles still open after a sequence of effects: each \<open>FileOpen\<close> adds its path, each
  \<open>FileClose\<close> removes one handle on its path.
\<close>

fun open_handles :: "event list \<Rightarrow> string list \<Rightarrow> string list" where
  "open_handles [] hs = hs"
| "open_handles (FileOpen p m # es) hs = open_handles es (p # hs)"
| "open_handles (FileClose p # es) hs = open_handles es (remove1 p hs)"
| "open_handles (e # es) hs = open_handles es hs"

section \<open>The three probing methods\<close>

text \<open>
  The three \<open>try\<close> blocks are the same text in \<open>GroqTranscriber._get_audio_details\<close> and in
  \<open>utils.validate_audio_file\<close>. Each either returns the dictionary from inside the block or
  falls through to the next statement with the dictionary as the block left it.
\<close>

datatype step = Return audio_details | Fallthrough audio_details

text \<open>
  Method 1. The division is the first statement of the block: a zero sample rate raises
  \<open>ZeroDivisionError\<close> before anything is assigned.
\<close>

definition method_soundfile :: "env \<Rightarrow> string \<Rightarrow> audio_details \<Rightarrow> step" where
  "method_soundfile e audio_path d =
     (case soundfile_open e audio_path of
        SfRaises \<Rightarrow> Fallthrough d
      | SfOpened frames samplerate nch \<Rightarrow>
          if samplerate = 0 then Fallthrough d
          else Return (d\<lparr>duration := of_int frames / of_int samplerate,
                         channels := nch,
                         sample_rate := samplerate\<rparr>))"

definition method_mutagen :: "env \<Rightarrow> string \<Rightarrow> audio_details \<Rightarrow> step" where
  "method_mutagen e audio_path d =
     (case mutagen_file e audio_path of
        MutagenRaises \<Rightarrow> Fallthrough d
      | MutagenNoInfo \<Rightarrow> Fallthrough d
      | MutagenInfo len nch rate \<Rightarrow>
          Return (d\<lparr>duration := len,
                    channels := (case nch of Some c \<Rightarrow> c | None \<Rightarrow> 1),
                    sample_rate := (case rate of Some r \<Rightarrow> r | None \<Rightarrow> 0)\<rparr>))"

text \<open>
  Method 3 assigns \<open>channels\<close> and \<open>sample_rate\<close> before it divides: with a zero frame rate
  the division raises after both assignments, and the dictionary keeps them.
\<close>

definition method_wave :: "env \<Rightarrow> string \<Rightarrow> audio_details \<Rightarrow> step" where
  "method_wave e audio_path d =
     (case wave_open e audio_path of
        WaveRaises \<Rightarrow> Fallthrough d
      | WaveOpened nchannels framerate nframes \<Rightarrow>
          (let d1 = d\<lparr>channels := nchannels\<rparr>;
               d2 = d1\<lparr>sample_rate := framerate\<rparr>
           in if framerate = 0 then Fallthrough d2
              else Return (d2\<lparr>duration := of_int nframes / of_int framerate\<rparr>)))"

definition probe_audio :: "env \<Rightarrow> string \<Rightarrow> string \<Rightarrow> audio_details \<Rightarrow> event list \<times> step" where
  "probe_audio e audio_path file_ext d0 =
     (case method_soundfile e audio_path d0 of
        Return d \<Rightarrow> ([ProbeSoundfile audio_path], Return d)
      | Fallthrough d1 \<Rightarrow>
          (case method_mutagen e audio_path d1 of
             Return d \<Rightarrow> ([ProbeSoundfile audio_path, ProbeMutagen audio_path], Return d)
           | Fallthrough d2 \<Rightarrow>
               if file_ext = ''.wav'' then
                 (case method_wave e audio_path d2 of
                    Return d \<Rightarrow>
                      ([ProbeSoundfile audio_path, ProbeMutagen audio_path,
                        ProbeWave audio_path], Return d)
                  | Fallthrough d3 \<Rightarrow>
                      ([ProbeSoundfile audio_path, ProbeMutagen audio_path,
                        ProbeWave audio_path], Fallthrough d3))
               else ([ProbeSoundfile audio_path, ProbeMutagen audio_path], Fallthrough d2)))"

definition default_details :: "rat \<Rightarrow> audio_details" where
  "default_details size_mb =
     \<lparr>duration = 0, channels = 1, sample_rate = 0, file_size_mb = size_mb\<rparr>"

definition size_mb :: "env \<Rightarrow> string \<Rightarrow> rat" where
  "size_mb e audio_path = of_nat (getsize e audio_path) / (1024 * 1024)"

section \<open>\<open>transcriber.py\<close>: the class \<open>GroqTranscriber\<close>\<close>

definition SUPPORTED_MODELS :: "string list" where
  "SUPPORTED_MODELS = [''whisper-large-v3-turbo'', ''distil-whisper-large-v3-en'', ''whisper-large-v3'']"

definition SUPPORTED_FORMATS :: "string list" where
  "SUPPORTED_FORMATS = [''json'', ''verbose_json'', ''text'']"

definition SUPPORTED_EXTENSIONS :: "string list" where
  "SUPPORTED_EXTENSIONS = [''.mp3'', ''.mp4'', ''.mpeg'', ''.mpga'', ''.m4a'', ''.wav'', ''.webm'']"

definition MAX_FILE_SIZE_MB :: rat where
  "MAX_FILE_SIZE_MB = 25"

definition MIN_FILE_LENGTH_SECONDS :: rat where
  "MIN_FILE_LENGTH_SECONDS = 1 / 100"

record transcriber =
  api_key :: string
  model :: string
  base_url :: string

definition get_audio_details :: "env \<Rightarrow> string \<Rightarrow> audio_details io" where
  "get_audio_details e audio_path =
     (if \<not> path_exists e audio_path then ([], Inl (FileNotFound audio_path))
      else
        let file_ext = file_ext_of audio_path in
        if file_ext \<notin> set SUPPORTED_EXTENSIONS
        then ([], Inl (UnsupportedExtension file_ext SUPPORTED_EXTENSIONS))
        else
          let file_size = size_mb e audio_path in
          if file_size > MAX_FILE_SIZE_MB
          then ([], Inl (FileTooLarge MAX_FILE_SIZE_MB file_size))
          else
            (case probe_audio e audio_path file_ext (default_details file_size) of
               (evs, Return d) \<Rightarrow> (evs, Inr d)
             | (evs, Fallthrough d) \<Rightarrow> (evs, Inr d)))"

text \<open>\<open>GroqTranscriber._validate_audio_file\<close>; the two warnings it prints raise nothing.\<close>

definition transcriber_validate_audio_file :: "env \<Rightarrow> string \<Rightarrow> unit io" where
  "transcriber_validate_audio_file e audio_path =
     (case get_audio_details e audio_path of
        (evs, Inl err) \<Rightarrow> (evs, Inl err)
      | (evs, Inr d) \<Rightarrow>
          if duration d < MIN_FILE_LENGTH_SECONDS
          then (evs, Inl (FileTooShort MIN_FILE_LENGTH_SECONDS (duration d)))
          else (evs, Inr ()))"

text \<open>
  The body of the \<open>try\<close> block of \<open>transcribe\<close>: the call is attempted, then the status is
  checked, then the body is parsed.
\<close>

definition post_and_parse :: "env \<Rightarrow> request \<Rightarrow> json io" where
  "post_and_parse e req =
     (case requests_post e req of
        PostRaises msg \<Rightarrow> ([HttpPost req], Inl (RequestException msg))
      | PostReturns r \<Rightarrow>
          if status_code r \<noteq> 200
          then ([HttpPost req], Inl (ApiError (status_code r) (response_text r)))
          else (case json_body r of
                  None \<Rightarrow> ([HttpPost req], Inl JSONDecodeError)
                | Some doc \<Rightarrow> ([HttpPost req], Inr doc)))"

text \<open>\<open>try: body finally: cleanup\<close>: the cleanup runs whatever the body did.\<close>

definition try_finally :: "'a io \<Rightarrow> event list \<Rightarrow> 'a io" where
  "try_finally body cleanup = (fst body @ cleanup, snd body)"

definition build_request :: "transcriber \<Rightarrow> string \<Rightarrow> string \<Rightarrow> string option \<Rightarrow> request" where
  "build_request self audio_path response_format language =
     \<lparr>url = base_url self,
      authorization = ''Bearer '' @ api_key self,
      form_data =
        [(''model'', model self), (''response_format'', response_format)] @
        (case language of
           None \<Rightarrow> []
         | Some l \<Rightarrow> if l = [] then [] else [(''language'', l)]),
      file_name = basename audio_path,
      file_path = audio_path,
      file_content_type = ''audio/mpeg''\<rparr>"

text \<open>
  The five lines \<open>transcribe\<close> prints after it has opened the file and before it enters the
  \<open>try\<close> block. \<open>api_key[-4:]\<close> is the last four characters, or the whole key when it is
  shorter.
\<close>

definition request_details :: "transcriber \<Rightarrow> string \<Rightarrow> string list" where
  "request_details self response_format =
     [''API Request Details:'',
      ''  URL: '' @ base_url self,
      ''  Model: '' @ model self,
      ''  Response Format: '' @ response_format,
      ''  API Key: '' @ take 3 (api_key self) @ ''...'' @
        drop (length (api_key self) - 4) (api_key self)]"

text \<open>Printing the lines in order; the first one that standard output refuses raises.\<close>

fun print_lines :: "env \<Rightarrow> string list \<Rightarrow> error option" where
  "print_lines e [] = None"
| "print_lines e (line # lines) =
     (if print_ok e line then print_lines e lines else Some (PrintFailed line))"

definition transcribe :: "env \<Rightarrow> transcriber \<Rightarrow> string \<Rightarrow> string \<Rightarrow> string option \<Rightarrow> json io" where
  "transcribe e self audio_path response_format language =
     (case transcriber_validate_audio_file e audio_path of
        (evs, Inl err) \<Rightarrow> (evs, Inl err)
      | (evs, Inr u) \<Rightarrow>
          if response_format \<notin> set SUPPORTED_FORMATS
          then (evs, Inl (UnsupportedFormat SUPPORTED_FORMATS))
          else if \<not> can_open e audio_path then (evs, Inl (OSError audio_path))
          else
            (case print_lines e (request_details self response_format) of
               Some err \<Rightarrow> (evs @ [FileOpen audio_path ''rb''], Inl err)
             | None \<Rightarrow>
                 (case try_finally
                         (post_and_parse e
                            (build_request self audio_path response_format language))
                         [FileClose audio_path] of
                    (evs', res) \<Rightarrow> (evs @ [FileOpen audio_path ''rb''] @ evs', res))))"

section \<open>The \<open>json\<close> package: \<open>json.dumps(obj, indent=2)\<close> and \<open>json.loads\<close>\<close>

text \<open>
  The two library functions behind the \<open>json\<close> branch of \<open>export_transcription\<close>, after
  \<open>json/encoder.py\<close>, \<open>json/decoder.py\<close> and \<open>json/scanner.py\<close> of CPython 3.11, on the
  documents of type \<open>json\<close>. Left out, as the type has no value for them: the floats \<open>NaN\<close>
  and \<open>Infinity\<close>, and characters from U+0100 on (with them surrogate pairs).
\<close>

abbreviation dquote :: char where
  "dquote \<equiv> CHR 0x22"

abbreviation backslash :: char where
  "backslash \<equiv> CHR 0x5C"

abbreviation linefeed :: char where
  "linefeed \<equiv> CHR 0x0A"

subsection \<open>Digits\<close>

definition digit_char :: "nat \<Rightarrow> char" where
  "digit_char d = ''0123456789abcdef'' ! d"

definition digit_value :: "char \<Rightarrow> nat option" where
  "digit_value c = map_of (zip ''0123456789'' [0, 1, 2, 3, 4, 5, 6, 7, 8, 9]) c"

definition hex_value :: "char \<Rightarrow> nat option" where
  "hex_value c =
     map_of (zip ''0123456789abcdefABCDEF''
                 [0, 1, 2, 3, 4, 5, 6, 7, 8, 9, 10, 11, 12, 13, 14, 15, 10, 11, 12, 13, 14, 15]) c"

definition is_digit :: "char \<Rightarrow> bool" where
  "is_digit c = (digit_value c \<noteq> None)"

text \<open>The decimal digits of a natural number, without leading zeros, and their value.\<close>

function nat_digits :: "nat \<Rightarrow> string" where
  "nat_digits n =
     (if n < 10 then [digit_char n] else nat_digits (n div 10) @ [digit_char (n mod 10)])"
  by pat_completeness auto
termination
  by (relation "measure id") auto

declare nat_digits.simps [simp del]

definition nat_of_digits :: "string \<Rightarrow> nat" where
  "nat_of_digits ds =
     foldl (\<lambda>acc c. 10 * acc + (case digit_value c of Some d \<Rightarrow> d | None \<Rightarrow> 0)) 0 ds"

subsection \<open>The encoder\<close>

text \<open>\<open>int.__repr__\<close>.\<close>

definition int_repr :: "int \<Rightarrow> string" where
  "int_repr i = (if i < 0 then CHR ''-'' # nat_digits (nat (- i)) else nat_digits (nat i))"

text \<open>
  \<open>float.__repr__\<close>: the digits \<open>ds\<close> of the float with the decimal point after \<open>decpt\<close> of
  them, laid out as \<open>format_float_short\<close> does for \<open>repr\<close>. Exponent notation is used when
  \<open>decpt \<le> -4\<close> or \<open>decpt > 16\<close>, with a sign and at least two digits in the exponent;
  otherwise positional notation, with \<open>.0\<close> added to a whole number.
\<close>

definition exp_repr :: "int \<Rightarrow> string" where
  "exp_repr x =
     (if x < 0 then CHR ''-'' else CHR ''+'') #
     (let ds = nat_digits (nat \<bar>x\<bar>) in if length ds < 2 then CHR ''0'' # ds else ds)"

definition format_float_short :: "string \<Rightarrow> int \<Rightarrow> string" where
  "format_float_short ds decpt =
     (if decpt \<le> - 4 \<or> 16 < decpt
      then hd ds # (if tl ds = [] then [] else CHR ''.'' # tl ds) @
           CHR ''e'' # exp_repr (decpt - 1)
      else if decpt \<le> 0 then ''0.'' @ replicate (nat (- decpt)) (CHR ''0'') @ ds
      else if int (length ds) \<le> decpt
      then ds @ replicate (nat (decpt - int (length ds))) (CHR ''0'') @ ''.0''
      else take (nat decpt) ds @ CHR ''.'' # drop (nat decpt) ds)"

definition float_repr :: "int \<Rightarrow> int \<Rightarrow> string" where
  "float_repr m e =
     (let ds = nat_digits (nat \<bar>m\<bar>)
      in (if m < 0 then ''-'' else []) @ format_float_short ds (int (length ds) + e))"

text \<open>
  \<open>encode_basestring_ascii\<close>: the quote, the backslash and five control characters have
  short escapes, the other characters from space to tilde stand for themselves, and every
  other character is written \<open>\u\<close> and four hexadecimal digits.
\<close>

definition hex4 :: "nat \<Rightarrow> string" where
  "hex4 n =
     [digit_char (n div 4096 mod 16), digit_char (n div 256 mod 16),
      digit_char (n div 16 mod 16), digit_char (n mod 16)]"

definition escape_char :: "char \<Rightarrow> string" where
  "escape_char c =
     (if c = backslash then [backslash, backslash]
      else if c = dquote then [backslash, dquote]
      else if c = CHR 0x08 then [backslash, CHR ''b'']
      else if c = CHR 0x0C then [backslash, CHR ''f'']
      else if c = linefeed then [backslash, CHR ''n'']
      else if c = CHR 0x0D then [backslash, CHR ''r'']
      else if c = CHR 0x09 then [backslash, CHR ''t'']
      else if 32 \<le> (of_char c :: nat) \<and> (of_char c :: nat) \<le> 126 then [c]
      else backslash # CHR ''u'' # hex4 (of_char c))"

definition encode_basestring_ascii :: "string \<Rightarrow> string" where
  "encode_basestring_ascii s = dquote # concat (map escape_char s) @ [dquote]"

text \<open>\<open>'\n' + _indent * _current_indent_level\<close>, with \<open>_indent\<close> two spaces.\<close>

definition newline_indent :: "nat \<Rightarrow> string" where
  "newline_indent level = linefeed # replicate (2 * level) (CHR '' '')"

fun join :: "string \<Rightarrow> string list \<Rightarrow> string" where
  "join sep [] = []"
| "join sep [x] = x"
| "join sep (x # y # ys) = x @ sep @ join sep (y # ys)"

text \<open>
  \<open>_iterencode\<close> with \<open>_iterencode_list\<close> and \<open>_iterencode_dict\<close>: the chunks they yield,
  joined. The item separator is a comma and the key separator a colon and a space.
\<close>

fun iterencode :: "nat \<Rightarrow> json \<Rightarrow> string" where
  "iterencode level (JStr s) = encode_basestring_ascii s"
| "iterencode level JNull = ''null''"
| "iterencode level (JBool b) = (if b then ''true'' else ''false'')"
| "iterencode level (JInt i) = int_repr i"
| "iterencode level (JFloat m e) = float_repr m e"
| "iterencode level (JArr lst) =
     (if lst = [] then ''[]''
      else ''['' @ newline_indent (Suc level) @
           join ('','' @ newline_indent (Suc level)) (map (iterencode (Suc level)) lst) @
           newline_indent level @ '']'')"
| "iterencode level (JObj dct) =
     (if dct = [] then ''{}''
      else ''{'' @ newline_indent (Suc level) @
           join ('','' @ newline_indent (Suc level))
             (map (\<lambda>(key, value).
                     encode_basestring_ascii key @ '': '' @ iterencode (Suc level) value) dct) @
           newline_indent level @ ''}'')"

definition json_dumps :: "json \<Rightarrow> string" where
  "json_dumps obj = iterencode 0 obj"

subsection \<open>The decoder\<close>

definition is_ws :: "char \<Rightarrow> bool" where
  "is_ws c = (c = CHR '' '' \<or> c = CHR 0x09 \<or> c = linefeed \<or> c = CHR 0x0D)"

definition skip_ws :: "string \<Rightarrow> string" where
  "skip_ws s = dropWhile is_ws s"

text \<open>
  \<open>NUMBER_RE\<close>, group by group: an optional minus and either a single zero or a digit from
  one to nine followed by digits; an optional point followed by at least one digit; an
  optional \<open>e\<close> or \<open>E\<close>, an optional sign and at least one digit.
\<close>

definition match_integer :: "string \<Rightarrow> (bool \<times> string \<times> string) option" where
  "match_integer s =
     (let neg = (s \<noteq> [] \<and> hd s = CHR ''-'');
          r = (if neg then tl s else s)
      in case r of
           [] \<Rightarrow> None
         | c # cs \<Rightarrow>
             if c = CHR ''0'' then Some (neg, ''0'', cs)
             else if is_digit c then Some (neg, takeWhile is_digit r, dropWhile is_digit r)
             else None)"

definition match_frac :: "string \<Rightarrow> string \<times> string" where
  "match_frac s =
     (case s of
        c # d # r \<Rightarrow>
          if c = CHR ''.'' \<and> is_digit d
          then (takeWhile is_digit (d # r), dropWhile is_digit (d # r))
          else ([], s)
      | _ \<Rightarrow> ([], s))"

definition match_exp :: "string \<Rightarrow> int option \<times> string" where
  "match_exp s =
     (case s of
        [] \<Rightarrow> (None, s)
      | c # r \<Rightarrow>
          if c = CHR ''e'' \<or> c = CHR ''E'' then
            (let neg = (r \<noteq> [] \<and> hd r = CHR ''-'');
                 r' = (if r \<noteq> [] \<and> (hd r = CHR ''-'' \<or> hd r = CHR ''+'') then tl r else r)
             in if r' \<noteq> [] \<and> is_digit (hd r')
                then (Some ((if neg then - 1 else 1) * int (nat_of_digits (takeWhile is_digit r'))),
                      dropWhile is_digit r')
                else (None, s))
          else (None, s))"

text \<open>
  \<open>float(integer + frac + exp)\<close>: the value is the digits of the integer part and of the
  fraction, times ten to the exponent less the number of fraction digits, brought to the
  form in which the mantissa does not end in a zero.
\<close>

function normalize :: "int \<Rightarrow> int \<Rightarrow> int \<times> int" where
  "normalize m e =
     (if m = 0 then (0, 0)
      else if m mod 10 = 0 then normalize (m div 10) (e + 1)
      else (m, e))"
  by pat_completeness auto
termination
  by (relation "measure (\<lambda>(m, e). nat \<bar>m\<bar>)") auto

declare normalize.simps [simp del]

definition parse_float :: "bool \<Rightarrow> string \<Rightarrow> string \<Rightarrow> int option \<Rightarrow> json" where
  "parse_float neg integer fraction ex =
     (let m = int (nat_of_digits (integer @ fraction));
          e = (case ex of Some x \<Rightarrow> x | None \<Rightarrow> 0) - int (length fraction)
      in case normalize (if neg then - m else m) e of (m', e') \<Rightarrow> JFloat m' e')"

definition parse_number :: "string \<Rightarrow> (json \<times> string) option" where
  "parse_number s =
     (case match_integer s of
        None \<Rightarrow> None
      | Some (neg, integer, r1) \<Rightarrow>
          (case match_frac r1 of
             (fraction, r2) \<Rightarrow>
               (case match_exp r2 of
                  (ex, r3) \<Rightarrow>
                    if fraction \<noteq> [] \<or> ex \<noteq> None
                    then Some (parse_float neg integer fraction ex, r3)
                    else Some (JInt ((if neg then - 1 else 1) * int (nat_of_digits integer)), r3))))"

text \<open>
  \<open>scanstring\<close>, from the character after the opening quote: it returns the string and
  what follows the closing quote. A control character is refused (\<open>strict\<close>).
\<close>

definition backslash_char :: "char \<Rightarrow> char option" where
  "backslash_char esc =
     map_of [(dquote, dquote), (backslash, backslash), (CHR ''/'', CHR ''/''),
             (CHR ''b'', CHR 0x08), (CHR ''f'', CHR 0x0C), (CHR ''n'', linefeed),
             (CHR ''r'', CHR 0x0D), (CHR ''t'', CHR 0x09)] esc"

definition decode_uXXXX :: "char \<Rightarrow> char \<Rightarrow> char \<Rightarrow> char \<Rightarrow> char option" where
  "decode_uXXXX a b c d =
     (case (hex_value a, hex_value b, hex_value c, hex_value d) of
        (Some x3, Some x2, Some x1, Some x0) \<Rightarrow>
          (let uni = 4096 * x3 + 256 * x2 + 16 * x1 + x0
           in if uni < 256 then Some (char_of uni) else None)
      | _ \<Rightarrow> None)"

fun scanstring :: "string \<Rightarrow> (string \<times> string) option" where
  "scanstring [] = None"
| "scanstring (c # s) =
     (if c = dquote then Some ([], s)
      else if c = backslash then
        (case s of
           [] \<Rightarrow> None
         | esc # r \<Rightarrow>
             if esc = CHR ''u'' then
               (case r of
                  x3 # x2 # x1 # x0 # r' \<Rightarrow>
                    (case decode_uXXXX x3 x2 x1 x0 of
                       None \<Rightarrow> None
                     | Some ch \<Rightarrow>
                         (case scanstring r' of
                            None \<Rightarrow> None
                          | Some (str, rest) \<Rightarrow> Some (ch # str, rest)))
                | _ \<Rightarrow> None)
             else
               (case backslash_char esc of
                  None \<Rightarrow> None
                | Some ch \<Rightarrow>
                    (case scanstring r of
                       None \<Rightarrow> None
                     | Some (str, rest) \<Rightarrow> Some (ch # str, rest))))
      else if (of_char c :: nat) < 32 then None
      else
        (case scanstring s of
           None \<Rightarrow> None
         | Some (str, rest) \<Rightarrow> Some (c # str, rest)))"

text \<open>
  \<open>dict(pairs)\<close>: the items in the order of their first occurrence, a repeated key keeping
  its last value.
\<close>

fun dict_set :: "string \<Rightarrow> json \<Rightarrow> (string \<times> json) list \<Rightarrow> (string \<times> json) list" where
  "dict_set k v [] = [(k, v)]"
| "dict_set k v ((k', v') # items) =
     (if k = k' then (k, v) # items else (k', v') # dict_set k v items)"

definition dict_of_pairs :: "(string \<times> json) list \<Rightarrow> (string \<times> json) list" where
  "dict_of_pairs pairs = foldl (\<lambda>d (k, v). dict_set k v d) [] pairs"

text \<open>
  \<open>scan_once\<close>, \<open>JSONArray\<close> and \<open>JSONObject\<close>. The first argument bounds the number of calls
  still allowed; every call consumes a character, so the length of the text is enough.
  \<open>json_array\<close> starts at a value, \<open>json_object\<close> after the opening quote of a key.
\<close>

fun scan_once :: "nat \<Rightarrow> string \<Rightarrow> (json \<times> string) option"
  and json_array :: "nat \<Rightarrow> string \<Rightarrow> json list \<Rightarrow> (json \<times> string) option"
  and json_object :: "nat \<Rightarrow> string \<Rightarrow> (string \<times> json) list \<Rightarrow> (json \<times> string) option"
where
  "scan_once 0 s = None"
| "scan_once (Suc n) [] = None"
| "scan_once (Suc n) (c # s) =
     (if c = dquote then
        (case scanstring s of
           None \<Rightarrow> None
         | Some (str, r) \<Rightarrow> Some (JStr str, r))
      else if c = CHR ''{'' then
        (case skip_ws s of
           [] \<Rightarrow> None
         | d # r \<Rightarrow>
             if d = CHR ''}'' then Some (JObj [], r)
             else if d = dquote then json_object n r []
             else None)
      else if c = CHR ''['' then
        (case skip_ws s of
           [] \<Rightarrow> None
         | d # r \<Rightarrow>
             if d = CHR '']'' then Some (JArr [], r)
             else json_array n (d # r) [])
      else if take 4 (c # s) = ''null'' then Some (JNull, drop 4 (c # s))
      else if take 4 (c # s) = ''true'' then Some (JBool True, drop 4 (c # s))
      else if take 5 (c # s) = ''false'' then Some (JBool False, drop 5 (c # s))
      else parse_number (c # s))"
| "json_array 0 s vals = None"
| "json_array (Suc n) s vals =
     (case scan_once n s of
        None \<Rightarrow> None
      | Some (v, r) \<Rightarrow>
          (case skip_ws r of
             [] \<Rightarrow> None
           | d # r' \<Rightarrow>
               if d = CHR '']'' then Some (JArr (vals @ [v]), r')
               else if d = CHR '','' then json_array n (skip_ws r') (vals @ [v])
               else None))"
| "json_object 0 s pairs = None"
| "json_object (Suc n) s pairs =
     (case scanstring s of
        None \<Rightarrow> None
      | Some (key, r) \<Rightarrow>
          (case skip_ws r of
             [] \<Rightarrow> None
           | d # r1 \<Rightarrow>
               if d \<noteq> CHR '':'' then None
               else
                 (case scan_once n (skip_ws r1) of
                    None \<Rightarrow> None
                  | Some (v, r2) \<Rightarrow>
                      (case skip_ws r2 of
                         [] \<Rightarrow> None
                       | d2 # r3 \<Rightarrow>
                           if d2 = CHR ''}''
                           then Some (JObj (dict_of_pairs (pairs @ [(key, v)])), r3)
                           else if d2 = CHR '',''
                           then
                             (case skip_ws r3 of
                                [] \<Rightarrow> None
                              | d3 # r4 \<Rightarrow>
                                  if d3 = dquote
                                  then json_object n r4 (pairs @ [(key, v)])
                                  else None)
                           else None))))"

text \<open>\<open>JSONDecoder.decode\<close>: one value, with white space around it and nothing else.\<close>

definition json_loads :: "string \<Rightarrow> json option" where
  "json_loads s =
     (case scan_once (Suc (length s)) (skip_ws s) of
        None \<Rightarrow> None
      | Some (obj, r) \<Rightarrow> if skip_ws r = [] then Some obj else None)"


text \<open>What may follow an encoded value: the end of the text, a comma or a line feed.\<close>

definition value_end :: "string \<Rightarrow> bool" where
  "value_end r = (r = [] \<or> hd r = CHR '','' \<or> hd r = linefeed)"

text \<open>An item of an encoded dictionary after the opening quote of its key.\<close>

definition item_tail :: "nat \<Rightarrow> string \<times> json \<Rightarrow> string" where
  "item_tail L p =
     concat (map escape_char (fst p)) @ dquote # CHR '':'' # CHR '' '' # iterencode L (snd p)"

section \<open>\<open>utils.py\<close>\<close>

text \<open>
  \<open>validate_audio_file\<close>, with its three keyword parameters; \<open>supported_extensions\<close> is
  \<open>None\<close> unless the caller gives a list. The minimum-length check stands after the three
  probing blocks, each of which returns from inside.
\<close>

definition validate_audio_file ::
  "env \<Rightarrow> string \<Rightarrow> rat \<Rightarrow> rat \<Rightarrow> string list option \<Rightarrow> audio_details io" where
  "validate_audio_file e audio_path max_file_size_mb min_file_length_seconds supported_extensions =
     (let supported =
            (case supported_extensions of
               None \<Rightarrow> [''.mp3'', ''.mp4'', ''.mpeg'', ''.mpga'', ''.m4a'', ''.wav'', ''.webm'']
             | Some exts \<Rightarrow> exts)
      in
      if \<not> path_exists e audio_path then ([], Inl (FileNotFound audio_path))
      else
        let file_ext = file_ext_of audio_path in
        if file_ext \<notin> set supported then ([], Inl (UnsupportedExtension file_ext supported))
        else
          let file_size = size_mb e audio_path in
          if file_size > max_file_size_mb
          then ([], Inl (FileTooLarge max_file_size_mb file_size))
          else
            (case probe_audio e audio_path file_ext (default_details file_size) of
               (evs, Return d) \<Rightarrow> (evs, Inr d)
             | (evs, Fallthrough d) \<Rightarrow>
                 if duration d < min_file_length_seconds
                 then (evs, Inl (FileTooShort min_file_length_seconds (duration d)))
                 else (evs, Inr d)))"

text \<open>
  \<open>export_transcription\<close>. The dictionary is the list of its items, so
  \<open>transcription.get('text', '')\<close> is a lookup in that list. The content is a string in the
  \<open>json\<close> branch and whatever the dictionary holds under \<open>text\<close> in the other, so it is a
  \<open>json\<close> value here. An empty output path is falsy.
\<close>

definition export_transcription ::
  "env \<Rightarrow> (string \<times> json) list \<Rightarrow> string \<Rightarrow> string option \<Rightarrow> json io" where
  "export_transcription e transcription output_format output_path =
     (case (if output_format = ''json'' then Inr (JStr (json_dumps (JObj transcription)))
            else if output_format = ''text''
            then Inr (case map_of transcription ''text'' of Some v \<Rightarrow> v | None \<Rightarrow> JStr [])
            else Inl (UnsupportedExportFormat output_format)) of
        Inl err \<Rightarrow> ([], Inl err)
      | Inr content \<Rightarrow>
          (case output_path of
             None \<Rightarrow> ([], Inr content)
           | Some path \<Rightarrow>
               if path = [] then ([], Inr content)
               else if \<not> can_open e path then ([], Inl (OSError path))
               else
                 (case content of
                    JStr str \<Rightarrow>
                      ([FileOpen path ''w'', FileWrite path str, FileClose path], Inr content)
                  | _ \<Rightarrow> ([FileOpen path ''w'', FileClose path], Inl TypeError))))"

section \<open>When a probing method fails\<close>

text \<open>
  A method fails when its \<open>try\<close> block is left without returning: the library raised, the
  media-tag reader gave no \<open>info\<close>, or the division by the sample rate raised
  \<open>ZeroDivisionError\<close>. \<open>wave_channels\<close> is the channel count the third block has assigned
  by the time it is left.
\<close>

fun soundfile_fails :: "soundfile_outcome \<Rightarrow> bool" where
  "soundfile_fails SfRaises = True"
| "soundfile_fails (SfOpened frames samplerate nch) = (samplerate = 0)"

fun mutagen_fails :: "mutagen_outcome \<Rightarrow> bool" where
  "mutagen_fails (MutagenInfo len nch rate) = False"
| "mutagen_fails m = True"

fun wave_fails :: "wave_outcome \<Rightarrow> bool" where
  "wave_fails WaveRaises = True"
| "wave_fails (WaveOpened nchannels framerate nframes) = (framerate = 0)"

fun wave_channels :: "wave_outcome \<Rightarrow> int" where
  "wave_channels WaveRaises = 1"
| "wave_channels (WaveOpened nchannels framerate nframes) = nchannels"

section \<open>Scenarios\<close>

text \<open>A world with no files, in which every library call fails; the scenarios change it.\<close>

definition no_files :: env where
  "no_files =
     \<lparr>path_exists = (\<lambda>p. False),
      getsize = (\<lambda>p. 0),
      soundfile_open = (\<lambda>p. SfRaises),
      mutagen_file = (\<lambda>p. MutagenRaises),
      wave_open = (\<lambda>p. WaveRaises),
      can_open = (\<lambda>p. True),
      print_ok = (\<lambda>line. True),
      requests_post = (\<lambda>r. PostRaises ''connection refused'')\<rparr>"

definition client :: transcriber where
  "client = \<lparr>api_key = ''gsk_test_key'', model = ''whisper-large-v3'',
             base_url = ''https://api.groq.com/openai/v1/audio/transcriptions''\<rparr>"

text \<open>A 16-frame mono WAV at 16 kHz (one millisecond of sound) that soundfile reads.\<close>

definition short_clip :: env where
  "short_clip =
     no_files\<lparr>path_exists := (\<lambda>p. p = ''clip.wav''),
              getsize := (\<lambda>p. 2048),
              soundfile_open := (\<lambda>p. SfOpened 16 16000 1)\<rparr>"

text \<open>
  A stereo WAV whose header gives a frame rate of zero: soundfile refuses it, mutagen does
  not know the type, and the \<open>wave\<close> module opens it.
\<close>

definition zero_rate_wav :: env where
  "zero_rate_wav =
     no_files\<lparr>path_exists := (\<lambda>p. p = ''stereo.wav''),
              getsize := (\<lambda>p. 1024),
              mutagen_file := (\<lambda>p. MutagenNoInfo),
              wave_open := (\<lambda>p. WaveOpened 2 0 245)\<rparr>"

text \<open>A 30 MB MP3.\<close>

definition big_mp3 :: env where
  "big_mp3 =
     no_files\<lparr>path_exists := (\<lambda>p. p = ''talk.mp3''),
              getsize := (\<lambda>p. 31457280),
              mutagen_file := (\<lambda>p. MutagenInfo 1800 (Some 2) (Some 44100))\<rparr>"

text \<open>A FLAC file, which is outside the allow-list.\<close>

definition flac_file :: env where
  "flac_file =
     no_files\<lparr>path_exists := (\<lambda>p. p = ''song.FLAC''),
              getsize := (\<lambda>p. 4096),
              soundfile_open := (\<lambda>p. SfOpened 441000 44100 2)\<rparr>"

text \<open>
  A 12-second MP3 of 1 MB that mutagen reads, and a service that answers \<open>status\<close> with
  \<open>body\<close>.
\<close>

definition good_mp3 :: "post_outcome \<Rightarrow> env" where
  "good_mp3 answer =
     no_files\<lparr>path_exists := (\<lambda>p. p = ''talk.mp3''),
              getsize := (\<lambda>p. 1048576),
              mutagen_file := (\<lambda>p. MutagenInfo 12 (Some 2) (Some 44100)),
              requests_post := (\<lambda>r. answer)\<rparr>"

text \<open>
  A console that encodes ASCII only (\<open>digit7\<close> is the top bit of a character), and a client
  whose base URL has a \<open>u\<close> with diaeresis in its host name.
\<close>

definition ascii_console :: "env \<Rightarrow> env" where
  "ascii_console e = e\<lparr>print_ok := (\<lambda>line. list_all (\<lambda>c. \<not> digit7 c) line)\<rparr>"

definition idn_client :: transcriber where
  "idn_client =
     client\<lparr>base_url := ''https://t'' @ [CHR 0xFC] @ ''bingen.example/v1/audio/transcriptions''\<rparr>"

definition ok_answer :: post_outcome where
  "ok_answer =
     PostReturns \<lparr>status_code = 200, response_text = ''{\"text\": \"hello\"}'',
                  json_body = Some (JObj [(''text'', JStr ''hello'')])\<rparr>"

definition unauthorized_answer :: post_outcome where
  "unauthorized_answer =
     PostReturns \<lparr>status_code = 401, response_text = ''Invalid API Key'', json_body = None\<rparr>"

definition garbled_answer :: post_outcome where
  "garbled_answer =
     PostReturns \<lparr>status_code = 200, response_text = ''hello'', json_body = None\<rparr>"


section \<open>Evaluating the definitions\<close>

lemmas scenario_defs = short_clip_def zero_rate_wav_def big_mp3_def flac_file_def good_mp3_def
  no_files_def client_def ok_answer_def unauthorized_answer_def garbled_answer_def
  ascii_console_def idn_client_def

lemmas path_defs = file_ext_of_def splitext_def lower_def lower_char_def skip_leading_dots.simps
  basename_def

lemmas code_defs = validate_audio_file_def get_audio_details_def
  transcriber_validate_audio_file_def transcribe_def probe_audio_def method_soundfile_def
  method_mutagen_def method_wave_def default_details_def size_mb_def SUPPORTED_EXTENSIONS_def
  SUPPORTED_FORMATS_def MAX_FILE_SIZE_MB_def MIN_FILE_LENGTH_SECONDS_def post_and_parse_def
  try_finally_def build_request_def request_details_def Let_def

section \<open>What the validators and \<open>transcribe\<close> leave behind\<close>

text \<open>Probing performs between one and three probes and nothing else.\<close>

lemma probe_audio_events:
  "fst (probe_audio e p x d) = [ProbeSoundfile p] \<or>
   fst (probe_audio e p x d) = [ProbeSoundfile p, ProbeMutagen p] \<or>
   fst (probe_audio e p x d) = [ProbeSoundfile p, ProbeMutagen p, ProbeWave p]"
  by (simp add: probe_audio_def split: step.split)

lemma probe_audio_quiet:
  "\<not> list_ex is_http_post (fst (probe_audio e p x d))"
  "\<not> list_ex is_file_open (fst (probe_audio e p x d))"
  "open_handles (fst (probe_audio e p x d)) hs = hs"
  using probe_audio_events [of e p x d] by auto

lemma get_audio_details_quiet:
  "\<not> list_ex is_http_post (fst (get_audio_details e p))"
  "\<not> list_ex is_file_open (fst (get_audio_details e p))"
  "open_handles (fst (get_audio_details e p)) hs = hs"
  using probe_audio_quiet [of e p "file_ext_of p" "default_details (size_mb e p)"]
  by (auto simp: get_audio_details_def Let_def split: prod.split step.split)

text \<open>A dictionary is returned only for a file that passed the three cheap checks.\<close>

lemma get_audio_details_Inr:
  "get_audio_details e p = (pre, Inr d) \<Longrightarrow>
     path_exists e p \<and> file_ext_of p \<in> set SUPPORTED_EXTENSIONS \<and> size_mb e p \<le> MAX_FILE_SIZE_MB"
  by (auto simp: get_audio_details_def Let_def split: if_splits)

lemma validate_fst:
  "fst (transcriber_validate_audio_file e p) = fst (get_audio_details e p)"
  by (simp add: transcriber_validate_audio_file_def split: prod.split sum.split)

lemma validate_Inr:
  "transcriber_validate_audio_file e p = (pre, Inr u) \<Longrightarrow>
     \<exists>d. get_audio_details e p = (pre, Inr d) \<and> MIN_FILE_LENGTH_SECONDS \<le> duration d"
  by (auto simp: transcriber_validate_audio_file_def split: prod.splits sum.splits if_splits)

text \<open>The four ways \<open>transcribe\<close> ends.\<close>

lemma transcribe_cases:
  "(\<exists>pre err. transcriber_validate_audio_file e p = (pre, Inl err) \<and>
       transcribe e self p fmt lang = (pre, Inl err)) \<or>
   (\<exists>pre. transcriber_validate_audio_file e p = (pre, Inr ()) \<and> fmt \<notin> set SUPPORTED_FORMATS \<and>
       transcribe e self p fmt lang = (pre, Inl (UnsupportedFormat SUPPORTED_FORMATS))) \<or>
   (\<exists>pre. transcriber_validate_audio_file e p = (pre, Inr ()) \<and> fmt \<in> set SUPPORTED_FORMATS \<and>
       \<not> can_open e p \<and> transcribe e self p fmt lang = (pre, Inl (OSError p))) \<or>
   (\<exists>pre err. transcriber_validate_audio_file e p = (pre, Inr ()) \<and>
       fmt \<in> set SUPPORTED_FORMATS \<and> can_open e p \<and>
       print_lines e (request_details self fmt) = Some err \<and>
       transcribe e self p fmt lang = (pre @ [FileOpen p ''rb''], Inl err)) \<or>
   (\<exists>pre. transcriber_validate_audio_file e p = (pre, Inr ()) \<and> fmt \<in> set SUPPORTED_FORMATS \<and>
       can_open e p \<and> print_lines e (request_details self fmt) = None \<and>
       transcribe e self p fmt lang =
         (pre @ [FileOpen p ''rb'', HttpPost (build_request self p fmt lang), FileClose p],
          snd (post_and_parse e (build_request self p fmt lang))))"
proof (cases "transcriber_validate_audio_file e p")
  case (Pair pre r)
  have post: "fst (post_and_parse e req) = [HttpPost req]" for req
    by (simp add: post_and_parse_def split: post_outcome.split option.split)
  show ?thesis
  proof (cases r)
    case (Inl err)
    with Pair show ?thesis by (simp add: transcribe_def)
  next
    case (Inr u)
    show ?thesis
    proof (cases "print_lines e (request_details self fmt)")
      case None
      with Pair Inr post show ?thesis
        by (simp add: transcribe_def try_finally_def split: prod.split)
    next
      case (Some err)
      with Pair Inr show ?thesis
        by (simp add: transcribe_def)
    qed
  qed
qed

lemma open_handles_append:
  "open_handles (xs @ ys) hs = open_handles ys (open_handles xs hs)"
  by (induction xs hs rule: open_handles.induct) simp_all

text \<open>
  Once the five lines are printed, the \<open>finally\<close> clause closes the handle on every exit:
  a result, another status than 200, the transport raising, a body that does not parse.
\<close>

lemma transcribe_closes_file_handle_once_in_try:
  assumes "transcribe e self audio_path response_format language = (evs, res)"
    and "print_lines e (request_details self response_format) = None"
  shows "open_handles evs [] = [] \<and>
         (list_ex is_file_open evs \<longrightarrow>
            (\<exists>pre req. evs = pre @ [FileOpen audio_path ''rb'', HttpPost req, FileClose audio_path] \<and>
               \<not> list_ex is_file_open pre))"
proof -
  have quiet: "\<not> list_ex is_file_open (fst (transcriber_validate_audio_file e audio_path))"
    "open_handles (fst (transcriber_validate_audio_file e audio_path)) [] = []"
    by (simp_all add: validate_fst get_audio_details_quiet)
  from transcribe_cases [of e audio_path self response_format language]
  consider (early) "evs = fst (transcriber_validate_audio_file e audio_path)"
    | (posted) "evs = fst (transcriber_validate_audio_file e audio_path) @
         [FileOpen audio_path ''rb'',
          HttpPost (build_request self audio_path response_format language),
          FileClose audio_path]"
    using assms by auto
  then show ?thesis
  proof cases
    case early
    with quiet show ?thesis by simp
  next
    case posted
    with quiet show ?thesis by (auto simp: open_handles_append)
  qed
qed

lemma transcribe_closes_on_the_four_exits:
  "open_handles (fst (transcribe (good_mp3 ok_answer) client ''talk.mp3'' ''json'' None)) [] = [] \<and>
   snd (transcribe (good_mp3 ok_answer) client ''talk.mp3'' ''json'' None) =
     Inr (JObj [(''text'', JStr ''hello'')]) \<and>
   open_handles (fst (transcribe (good_mp3 unauthorized_answer) client ''talk.mp3'' ''json'' None)) [] = [] \<and>
   snd (transcribe (good_mp3 unauthorized_answer) client ''talk.mp3'' ''json'' None) =
     Inl (ApiError 401 ''Invalid API Key'') \<and>
   open_handles (fst (transcribe (good_mp3 (PostRaises ''timed out'')) client ''talk.mp3'' ''json'' None)) [] = [] \<and>
   snd (transcribe (good_mp3 (PostRaises ''timed out'')) client ''talk.mp3'' ''json'' None) =
     Inl (RequestException ''timed out'') \<and>
   open_handles (fst (transcribe (good_mp3 garbled_answer) client ''talk.mp3'' ''text'' None)) [] = [] \<and>
   snd (transcribe (good_mp3 garbled_answer) client ''talk.mp3'' ''text'' None) = Inl JSONDecodeError"
  by (simp add: scenario_defs path_defs code_defs)

text \<open>
  \<open>GroqTranscriber._validate_audio_file\<close> compares every duration the inspector returns
  with the minimum, whichever method produced it.
\<close>

lemma transcriber_validate_enforces_minimum:
  "get_audio_details e p = (evs, Inr d) \<Longrightarrow>
     transcriber_validate_audio_file e p =
       (evs, if duration d < MIN_FILE_LENGTH_SECONDS
             then Inl (FileTooShort MIN_FILE_LENGTH_SECONDS (duration d)) else Inr ())"
  by (simp add: transcriber_validate_audio_file_def)

text \<open>
  When all three methods fail the inspector returns the defaults, except for the channel
  count that the third block assigned before its division raised.
\<close>

lemma probe_audio_all_fail:
  assumes "soundfile_fails (soundfile_open e p)" and "mutagen_fails (mutagen_file e p)"
    and "x = ''.wav'' \<longrightarrow> wave_fails (wave_open e p)"
  shows "snd (probe_audio e p x (default_details sz)) =
     Fallthrough ((default_details sz)
        \<lparr>channels := (if x = ''.wav'' then wave_channels (wave_open e p) else 1)\<rparr>)"
proof -
  from assms(1) have sf: "method_soundfile e p d = Fallthrough d" for d
    by (cases "soundfile_open e p") (simp_all add: method_soundfile_def)
  from assms(2) have mu: "method_mutagen e p d = Fallthrough d" for d
    by (cases "mutagen_file e p") (simp_all add: method_mutagen_def)
  show ?thesis
  proof (cases "x = ''.wav''")
    case False
    with sf mu show ?thesis by (simp add: probe_audio_def default_details_def)
  next
    case True
    with assms(3) have "wave_fails (wave_open e p)" by simp
    then have "method_wave e p (default_details sz) =
        Fallthrough ((default_details sz)\<lparr>channels := wave_channels (wave_open e p)\<rparr>)"
      by (cases "wave_open e p") (simp_all add: method_wave_def default_details_def)
    with True sf mu show ?thesis by (simp add: probe_audio_def)
  qed
qed

lemma get_audio_details_all_fail:
  assumes "path_exists e p" and "file_ext_of p \<in> set SUPPORTED_EXTENSIONS"
    and "size_mb e p \<le> MAX_FILE_SIZE_MB"
    and "soundfile_fails (soundfile_open e p)" and "mutagen_fails (mutagen_file e p)"
    and "file_ext_of p = ''.wav'' \<longrightarrow> wave_fails (wave_open e p)"
  shows "snd (get_audio_details e p) =
     Inr ((default_details (size_mb e p))
        \<lparr>channels := (if file_ext_of p = ''.wav'' then wave_channels (wave_open e p) else 1)\<rparr>)"
proof -
  obtain evs st where pr: "probe_audio e p (file_ext_of p) (default_details (size_mb e p)) = (evs, st)"
    by (cases "probe_audio e p (file_ext_of p) (default_details (size_mb e p))")
  from probe_audio_all_fail [OF assms(4-6), where sz = "size_mb e p"] pr
  have "st = Fallthrough ((default_details (size_mb e p))
        \<lparr>channels := (if file_ext_of p = ''.wav'' then wave_channels (wave_open e p) else 1)\<rparr>)"
    by simp
  with assms(1-3) pr show ?thesis
    by (simp add: get_audio_details_def Let_def)
qed

section \<open>Decoding what \<open>json.dumps\<close> encoded\<close>

subsection \<open>Digits\<close>

lemma lt10_cases:
  "d < 10 \<Longrightarrow> d = 0 \<or> d = 1 \<or> d = 2 \<or> d = 3 \<or> d = 4 \<or> d = 5 \<or> d = 6 \<or> d = 7 \<or> d = 8 \<or> d = (9::nat)"
  by arith


lemma digit_value_digit_char:
  assumes "d < 10"
  shows "digit_value (digit_char d) = Some d"
  using lt10_cases [OF assms] by (elim disjE) (simp_all add: digit_value_def digit_char_def)




lemma is_digit_cases: "is_digit c \<longleftrightarrow> c \<in> set ''0123456789''"
  by (auto simp: is_digit_def digit_value_def)

lemma is_digit_zero [simp]: "is_digit (CHR ''0'')"
  by (simp add: is_digit_cases)

lemma not_digit [simp]:
  "\<not> is_digit (CHR ''.'')" "\<not> is_digit (CHR ''e'')" "\<not> is_digit (CHR '','')"
  "\<not> is_digit linefeed" "\<not> is_digit (CHR ''-'')" "\<not> is_digit (CHR ''+'')"
  by (simp_all add: is_digit_cases)


lemma nat_of_digits_snoc:
  "nat_of_digits (ds @ [c]) =
     10 * nat_of_digits ds + (case digit_value c of Some d \<Rightarrow> d | None \<Rightarrow> 0)"
  by (simp add: nat_of_digits_def)

lemma nat_of_digits_Nil [simp]: "nat_of_digits [] = 0"
  by (simp add: nat_of_digits_def)



lemma nat_of_digits_nat_digits [simp]: "nat_of_digits (nat_digits n) = n"
proof (induction n rule: nat_digits.induct)
  case (1 n)
  show ?case
  proof (cases "n < 10")
    case True
    then show ?thesis
      by (simp add: nat_digits.simps [of n] nat_of_digits_def digit_value_digit_char)
  next
    case False
    with 1 show ?thesis
      by (simp add: nat_digits.simps [of n] nat_of_digits_snoc digit_value_digit_char)
  qed
qed




lemma nat_digits_zero [simp]: "nat_digits 0 = ''0''"
  by (simp add: nat_digits.simps digit_char_def)






subsection \<open>Numbers\<close>










lemma normalize_zero [simp]: "normalize 0 e = (0, 0)"
  by (simp add: normalize.simps [of 0 e])








subsection \<open>Strings\<close>





subsection \<open>White space and the first character of an encoded value\<close>

lemma skip_ws_Nil [simp]: "skip_ws [] = []"
  by (simp add: skip_ws_def)


lemma skip_ws_space [simp]: "skip_ws (CHR '' '' # s) = skip_ws s"
  by (simp add: skip_ws_def is_ws_def)

lemma skip_ws_newline_indent [simp]: "skip_ws (newline_indent k @ s) = skip_ws s"
proof -
  have "dropWhile is_ws (replicate j (CHR '' '') @ s) = dropWhile is_ws s" for j
    by (induction j) (simp_all add: is_ws_def)
  then show ?thesis
    by (simp add: skip_ws_def newline_indent_def is_ws_def)
qed

lemma value_end_newline_indent [simp]: "value_end (newline_indent k @ s)"
  by (simp add: value_end_def newline_indent_def)

lemma value_end_comma [simp]: "value_end (CHR '','' # s)"
  by (simp add: value_end_def)


lemma not_ws [simp]:
  "\<not> is_ws dquote" "\<not> is_ws (CHR '','')" "\<not> is_ws (CHR '':'')" "\<not> is_ws (CHR '']'')"
  "\<not> is_ws (CHR ''}'')" "\<not> is_ws (CHR ''['')" "\<not> is_ws (CHR ''{'')" "\<not> is_ws (CHR ''-'')"
  "\<not> is_ws (CHR ''n'')" "\<not> is_ws (CHR ''t'')" "\<not> is_ws (CHR ''f'')"
  by (simp_all add: is_ws_def)





subsection \<open>Dictionaries\<close>



subsection \<open>Lists and dictionaries, item by item\<close>


lemma item_text:
  "(\<lambda>(key, value). encode_basestring_ascii key @ '': '' @ iterencode L value) p =
     dquote # item_tail L p"
  by (cases p) (simp add: item_tail_def encode_basestring_ascii_def)


subsection \<open>Decoding an encoded document\<close>








subsection \<open>An encoded and a decoded text\<close>

lemma json_dumps_example:
  "json_dumps (JObj [(''text'', JStr ''hi''), (''n'', JArr [JInt (- 12), JFloat 25 (- 1), JArr []])]) =
     ''{'' @ [linefeed] @
     ''  '' @ [dquote] @ ''text'' @ [dquote] @ '': '' @ [dquote] @ ''hi'' @ [dquote] @ '','' @ [linefeed] @
     ''  '' @ [dquote] @ ''n'' @ [dquote] @ '': ['' @ [linefeed] @
     ''    -12,'' @ [linefeed] @
     ''    2.5,'' @ [linefeed] @
     ''    []'' @ [linefeed] @
     ''  ]'' @ [linefeed] @
     ''}''"
  by code_simp

lemma json_loads_example:
  "json_loads (''{'' @ [dquote] @ ''a'' @ [dquote] @ '': [1, 2.50, true, null]}'') =
     Some (JObj [(''a'', JArr [JInt 1, JFloat 25 (- 1), JBool True, JNull])])"
  by code_simp

section \<open>The properties\<close>

text \<open>
  C1. \<open>transcribe\<close> sends the multipart request only for a file that has passed every
  policy check of \<open>_validate_audio_file\<close>: if the effects of a call contain an HTTP request,
  then the file exists, its lower-cased extension is in the allow-list, its size is within
  \<open>MAX_FILE_SIZE_MB\<close>, the inspector returned details whose duration is at least
  \<open>MIN_FILE_LENGTH_SECONDS\<close>, and the request comes after all effects of the validation.
  So when a check fails there is no request.
\<close>

theorem transcribe_posts_only_after_validation:
  assumes "transcribe e self audio_path response_format language = (evs, res)"
    and "list_ex is_http_post evs"
  shows "path_exists e audio_path \<and> file_ext_of audio_path \<in> set SUPPORTED_EXTENSIONS \<and>
     size_mb e audio_path \<le> MAX_FILE_SIZE_MB \<and>
     (\<exists>pre d. get_audio_details e audio_path = (pre, Inr d) \<and>
        MIN_FILE_LENGTH_SECONDS \<le> duration d \<and>
        transcriber_validate_audio_file e audio_path = (pre, Inr ()) \<and>
        \<not> list_ex is_http_post pre \<and>
        evs = pre @ [FileOpen audio_path ''rb'',
                     HttpPost (build_request self audio_path response_format language),
                     FileClose audio_path])"
proof -
  have quiet: "\<not> list_ex is_http_post (fst (transcriber_validate_audio_file e audio_path))"
    by (simp add: validate_fst get_audio_details_quiet)
  from transcribe_cases [of e audio_path self response_format language] assms quiet
  obtain pre where v: "transcriber_validate_audio_file e audio_path = (pre, Inr ())"
    and evs: "evs = pre @ [FileOpen audio_path ''rb'',
                     HttpPost (build_request self audio_path response_format language),
                     FileClose audio_path]"
    by auto
  from validate_Inr [OF v] obtain d where d: "get_audio_details e audio_path = (pre, Inr d)"
    and m: "MIN_FILE_LENGTH_SECONDS \<le> duration d" by blast
  from quiet v have "\<not> list_ex is_http_post pre" by simp
  with get_audio_details_Inr [OF d] d m v evs show ?thesis by blast
qed

text \<open>A 12-second MP3 of 1 MB is validated and then sent.\<close>

theorem transcribe_posts_only_after_validation_witness:
  "list_ex is_http_post (fst (transcribe (good_mp3 ok_answer) client ''talk.mp3'' ''json'' None)) \<and>
   path_exists (good_mp3 ok_answer) ''talk.mp3'' \<and>
   file_ext_of ''talk.mp3'' \<in> set SUPPORTED_EXTENSIONS \<and>
   size_mb (good_mp3 ok_answer) ''talk.mp3'' \<le> MAX_FILE_SIZE_MB \<and>
   transcriber_validate_audio_file (good_mp3 ok_answer) ''talk.mp3'' =
     ([ProbeSoundfile ''talk.mp3'', ProbeMutagen ''talk.mp3''], Inr ())"
proof -
  have run: "transcribe (good_mp3 ok_answer) client ''talk.mp3'' ''json'' None =
     ([ProbeSoundfile ''talk.mp3'', ProbeMutagen ''talk.mp3'', FileOpen ''talk.mp3'' ''rb'',
       HttpPost (build_request client ''talk.mp3'' ''json'' None), FileClose ''talk.mp3''],
      Inr (JObj [(''text'', JStr ''hello'')]))"
    by (simp add: scenario_defs path_defs code_defs)
  have post: "list_ex is_http_post [ProbeSoundfile ''talk.mp3'', ProbeMutagen ''talk.mp3'',
       FileOpen ''talk.mp3'' ''rb'',
       HttpPost (build_request client ''talk.mp3'' ''json'' None), FileClose ''talk.mp3'']"
    by simp
  from transcribe_posts_only_after_validation [OF run post] run post show ?thesis
    by auto
qed

text \<open>
  C2. The minimum-duration check is to be applied after the inspector whichever method
  succeeded. \<open>utils.validate_audio_file\<close> does not: a one-millisecond clip that soundfile
  reads is returned as valid under the default minimum of 0.01 seconds, because the first
  \<open>try\<close> block returns before the check is reached.
  \<open>GroqTranscriber._validate_audio_file\<close> rejects the same file with \<open>FileTooShort\<close>.
\<close>

theorem validate_audio_file_accepts_short_clip:
  "validate_audio_file short_clip ''clip.wav'' 25 (1 / 100) None =
     ([ProbeSoundfile ''clip.wav''],
      Inr \<lparr>duration = 1 / 1000, channels = 1, sample_rate = 16000, file_size_mb = 1 / 512\<rparr>) \<and>
   transcriber_validate_audio_file short_clip ''clip.wav'' =
     ([ProbeSoundfile ''clip.wav''], Inl (FileTooShort (1 / 100) (1 / 1000)))"
  by (simp add: scenario_defs path_defs code_defs)

text \<open>
  C3. When all three probing methods fail the inspector is to return the defaults
  (duration 0, one channel, sample rate 0, the file size). For a stereo WAV with a frame
  rate of zero all three fail, and \<open>_get_audio_details\<close> returns two channels.
\<close>

theorem get_audio_details_zero_rate_wav:
  "soundfile_fails (soundfile_open zero_rate_wav ''stereo.wav'') \<and>
   mutagen_fails (mutagen_file zero_rate_wav ''stereo.wav'') \<and>
   wave_fails (wave_open zero_rate_wav ''stereo.wav'') \<and>
   get_audio_details zero_rate_wav ''stereo.wav'' =
     ([ProbeSoundfile ''stereo.wav'', ProbeMutagen ''stereo.wav'', ProbeWave ''stereo.wav''],
      Inr \<lparr>duration = 0, channels = 2, sample_rate = 0, file_size_mb = 1 / 1024\<rparr>)"
  by (simp add: scenario_defs path_defs code_defs)

text \<open>
  C4. An existing file with an allowed extension whose size in MB exceeds the maximum is
  rejected with \<open>FileTooLarge\<close>, which carries the configured limit and the computed size,
  and no probe has been performed: the effects are empty. This holds for the class, with
  its limit of 25, and for \<open>utils.validate_audio_file\<close> with any limit.
\<close>

theorem too_large_fails_before_probing:
  assumes "path_exists e audio_path"
  shows "(file_ext_of audio_path \<in> set SUPPORTED_EXTENSIONS \<and>
          size_mb e audio_path > MAX_FILE_SIZE_MB \<longrightarrow>
            get_audio_details e audio_path =
              ([], Inl (FileTooLarge MAX_FILE_SIZE_MB (size_mb e audio_path))) \<and>
            transcriber_validate_audio_file e audio_path =
              ([], Inl (FileTooLarge MAX_FILE_SIZE_MB (size_mb e audio_path)))) \<and>
         (file_ext_of audio_path \<in> set SUPPORTED_EXTENSIONS \<and>
          size_mb e audio_path > max_file_size_mb \<longrightarrow>
            validate_audio_file e audio_path max_file_size_mb min_file_length_seconds None =
              ([], Inl (FileTooLarge max_file_size_mb (size_mb e audio_path))))"
  using assms
  by (simp add: get_audio_details_def transcriber_validate_audio_file_def
      validate_audio_file_def SUPPORTED_EXTENSIONS_def Let_def)

text \<open>A 30 MB MP3 against the limit of 25.\<close>

theorem too_large_fails_before_probing_witness:
  "path_exists big_mp3 ''talk.mp3'' \<and> file_ext_of ''talk.mp3'' \<in> set SUPPORTED_EXTENSIONS \<and>
   size_mb big_mp3 ''talk.mp3'' = 30 \<and> size_mb big_mp3 ''talk.mp3'' > MAX_FILE_SIZE_MB \<and>
   get_audio_details big_mp3 ''talk.mp3'' = ([], Inl (FileTooLarge 25 30)) \<and>
   transcriber_validate_audio_file big_mp3 ''talk.mp3'' = ([], Inl (FileTooLarge 25 30)) \<and>
   validate_audio_file big_mp3 ''talk.mp3'' 25 (1 / 100) None = ([], Inl (FileTooLarge 25 30))"
proof -
  have ex: "path_exists big_mp3 ''talk.mp3''" by (simp add: scenario_defs)
  have ext: "file_ext_of ''talk.mp3'' \<in> set SUPPORTED_EXTENSIONS"
    by (simp add: path_defs SUPPORTED_EXTENSIONS_def)
  have sz: "size_mb big_mp3 ''talk.mp3'' = 30" by (simp add: scenario_defs size_mb_def)
  from too_large_fails_before_probing [OF ex, of 25 "1 / 100"] ex ext sz show ?thesis
    by (simp add: MAX_FILE_SIZE_MB_def)
qed

text \<open>
  C5. An existing file whose lower-cased extension is outside the allow-list is rejected
  with \<open>UnsupportedExtension\<close> by both validators and by \<open>transcribe\<close>, with no effect at
  all, so without a network call.
\<close>

theorem unsupported_extension_rejected:
  assumes "path_exists e audio_path"
    and "file_ext_of audio_path \<notin> set SUPPORTED_EXTENSIONS"
  shows "get_audio_details e audio_path =
           ([], Inl (UnsupportedExtension (file_ext_of audio_path) SUPPORTED_EXTENSIONS)) \<and>
         transcriber_validate_audio_file e audio_path =
           ([], Inl (UnsupportedExtension (file_ext_of audio_path) SUPPORTED_EXTENSIONS)) \<and>
         validate_audio_file e audio_path max_file_size_mb min_file_length_seconds None =
           ([], Inl (UnsupportedExtension (file_ext_of audio_path) SUPPORTED_EXTENSIONS)) \<and>
         transcribe e self audio_path response_format language =
           ([], Inl (UnsupportedExtension (file_ext_of audio_path) SUPPORTED_EXTENSIONS))"
  using assms
  by (simp add: get_audio_details_def transcriber_validate_audio_file_def
      validate_audio_file_def transcribe_def SUPPORTED_EXTENSIONS_def Let_def)

text \<open>\<open>song.FLAC\<close> has the extension \<open>.flac\<close>.\<close>

theorem unsupported_extension_rejected_witness:
  "path_exists flac_file ''song.FLAC'' \<and> file_ext_of ''song.FLAC'' = ''.flac'' \<and>
   file_ext_of ''song.FLAC'' \<notin> set SUPPORTED_EXTENSIONS \<and>
   validate_audio_file flac_file ''song.FLAC'' 25 (1 / 100) None =
     ([], Inl (UnsupportedExtension ''.flac'' SUPPORTED_EXTENSIONS)) \<and>
   transcribe flac_file client ''song.FLAC'' ''json'' None =
     ([], Inl (UnsupportedExtension ''.flac'' SUPPORTED_EXTENSIONS))"
proof -
  have ex: "path_exists flac_file ''song.FLAC''" by (simp add: scenario_defs)
  have ext: "file_ext_of ''song.FLAC'' = ''.flac''" by (simp add: path_defs)
  have out: "file_ext_of ''song.FLAC'' \<notin> set SUPPORTED_EXTENSIONS"
    by (simp add: ext SUPPORTED_EXTENSIONS_def)
  from unsupported_extension_rejected [OF ex out, of 25 "1 / 100" client "''json''" None] ex ext out
  show ?thesis by simp
qed

text \<open>
  C6, as the code has it. With a response format outside \<open>json\<close>, \<open>verbose_json\<close> and
  \<open>text\<close>, \<open>transcribe\<close> fails and attempts no network call. The file is validated first:
  the failure is \<open>UnsupportedFormat\<close> when the file passes validation, and the validation
  error otherwise.
\<close>

theorem unsupported_format_fails_without_request:
  assumes "response_format \<notin> set SUPPORTED_FORMATS"
  shows "\<not> list_ex is_http_post (fst (transcribe e self audio_path response_format language)) \<and>
         (\<exists>err. snd (transcribe e self audio_path response_format language) = Inl err) \<and>
         (\<forall>pre. transcriber_validate_audio_file e audio_path = (pre, Inr ()) \<longrightarrow>
            transcribe e self audio_path response_format language =
              (pre, Inl (UnsupportedFormat SUPPORTED_FORMATS))) \<and>
         (\<forall>pre err. transcriber_validate_audio_file e audio_path = (pre, Inl err) \<longrightarrow>
            transcribe e self audio_path response_format language = (pre, Inl err))"
proof -
  have quiet: "\<not> list_ex is_http_post (fst (transcriber_validate_audio_file e audio_path))"
    by (simp add: validate_fst get_audio_details_quiet)
  from transcribe_cases [of e audio_path self response_format language] assms quiet
  show ?thesis by auto
qed

text \<open>A valid MP3 with the format \<open>srt\<close>.\<close>

theorem unsupported_format_fails_without_request_witness:
  "''srt'' \<notin> set SUPPORTED_FORMATS \<and>
   transcriber_validate_audio_file (good_mp3 ok_answer) ''talk.mp3'' =
     ([ProbeSoundfile ''talk.mp3'', ProbeMutagen ''talk.mp3''], Inr ()) \<and>
   transcribe (good_mp3 ok_answer) client ''talk.mp3'' ''srt'' None =
     ([ProbeSoundfile ''talk.mp3'', ProbeMutagen ''talk.mp3''],
      Inl (UnsupportedFormat SUPPORTED_FORMATS))"
proof -
  have fmt: "''srt'' \<notin> set SUPPORTED_FORMATS" by (simp add: SUPPORTED_FORMATS_def)
  have v: "transcriber_validate_audio_file (good_mp3 ok_answer) ''talk.mp3'' =
     ([ProbeSoundfile ''talk.mp3'', ProbeMutagen ''talk.mp3''], Inr ())"
    by (simp add: scenario_defs path_defs code_defs)
  from unsupported_format_fails_without_request [OF fmt, of "good_mp3 ok_answer" client "''talk.mp3''" None]
    fmt v show ?thesis by blast
qed

text \<open>
  With the format \<open>srt\<close> and a path that does not exist, \<open>transcribe\<close> fails with
  \<open>FileNotFound\<close>, not with \<open>UnsupportedFormat\<close>.
\<close>

theorem transcribe_srt_missing_file:
  "''srt'' \<notin> set SUPPORTED_FORMATS \<and>
   transcribe no_files client ''missing.mp3'' ''srt'' None = ([], Inl (FileNotFound ''missing.mp3'')) \<and>
   snd (transcribe no_files client ''missing.mp3'' ''srt'' None) \<noteq> Inl (UnsupportedFormat SUPPORTED_FORMATS)"
  by (simp add: scenario_defs code_defs)

text \<open>
  C7. The file handle opened for the upload is to be closed on every exit path.
  \<open>transcribe\<close> opens the file before the \<open>try\<close> block and prints five lines in between:
  with a console that encodes ASCII only and a base URL that has a character outside ASCII,
  the second \<open>print\<close> raises after \<open>open\<close>, the \<open>finally\<close> clause is never entered, and the
  handle on the audio file is still open when the call ends.
\<close>

theorem transcribe_leaks_handle_when_print_raises:
  "transcribe (ascii_console (good_mp3 ok_answer)) idn_client ''talk.mp3'' ''json'' None =
     ([ProbeSoundfile ''talk.mp3'', ProbeMutagen ''talk.mp3'', FileOpen ''talk.mp3'' ''rb''],
      Inl (PrintFailed (''  URL: '' @ base_url idn_client))) \<and>
   open_handles
     (fst (transcribe (ascii_console (good_mp3 ok_answer)) idn_client ''talk.mp3'' ''json'' None))
     [] = [''talk.mp3'']"
  by (simp add: scenario_defs path_defs code_defs)



text \<open>
  C9. \<open>export_transcription(result, 'text')\<close> returns the value under \<open>text\<close> when the
  dictionary has one and the empty string when it has none.
\<close>

theorem export_text_returns_text_field:
  "(map_of transcription ''text'' = Some v \<longrightarrow>
      export_transcription e transcription ''text'' None = ([], Inr v)) \<and>
   (map_of transcription ''text'' = None \<longrightarrow>
      export_transcription e transcription ''text'' None = ([], Inr (JStr [])))"
  by (simp add: export_transcription_def)

text \<open>A result with a \<open>text\<close> field and one without.\<close>

theorem export_text_returns_text_field_witness:
  "map_of [(''text'', JStr ''hello''), (''language'', JStr ''en'')] ''text'' = Some (JStr ''hello'') \<and>
   export_transcription no_files [(''text'', JStr ''hello''), (''language'', JStr ''en'')] ''text'' None =
     ([], Inr (JStr ''hello'')) \<and>
   map_of [(''language'', JStr ''en'')] ''text'' = None \<and>
   export_transcription no_files [(''language'', JStr ''en'')] ''text'' None = ([], Inr (JStr []))"
proof -
  have p: "map_of [(''text'', JStr ''hello''), (''language'', JStr ''en'')] ''text'' = Some (JStr ''hello'')"
    by simp
  have a: "map_of [(''language'', JStr ''en'')] ''text'' = None" by simp
  from export_text_returns_text_field
         [of "[(''text'', JStr ''hello''), (''language'', JStr ''en'')]" "JStr ''hello''" no_files]
       export_text_returns_text_field [of "[(''language'', JStr ''en'')]" v no_files for v]
       p a
  show ?thesis by blast
qed

text \<open>
  C10. With an output format other than \<open>json\<close> and \<open>text\<close>, \<open>export_transcription\<close>
  fails with \<open>UnsupportedExportFormat\<close> and has no effect, also when an output path is
  given: nothing is opened or written.
\<close>

theorem export_unknown_format_writes_nothing:
  assumes "output_format \<noteq> ''json''" and "output_format \<noteq> ''text''"
  shows "export_transcription e transcription output_format output_path =
           ([], Inl (UnsupportedExportFormat output_format))"
  using assms by (simp add: export_transcription_def)

text \<open>\<open>srt\<close>, \<open>vtt\<close> and \<open>verbose_json\<close>, each with an output path.\<close>

theorem export_unknown_format_writes_nothing_witness:
  "''srt'' \<noteq> ''json'' \<and> ''srt'' \<noteq> ''text'' \<and>
   export_transcription no_files [(''text'', JStr ''hello'')] ''srt'' (Some ''out.srt'') =
     ([], Inl (UnsupportedExportFormat ''srt'')) \<and>
   export_transcription no_files [(''text'', JStr ''hello'')] ''vtt'' (Some ''out.vtt'') =
     ([], Inl (UnsupportedExportFormat ''vtt'')) \<and>
   export_transcription no_files [(''text'', JStr ''hello'')] ''verbose_json'' (Some ''out.json'') =
     ([], Inl (UnsupportedExportFormat ''verbose_json''))"
proof -
  have s: "''srt'' \<noteq> ''json''" "''srt'' \<noteq> ''text''" by simp_all
  have v: "''vtt'' \<noteq> ''json''" "''vtt'' \<noteq> ''text''" by simp_all
  have j: "''verbose_json'' \<noteq> ''json''" "''verbose_json'' \<noteq> ''text''" by simp_all
  from export_unknown_format_writes_nothing [OF s] export_unknown_format_writes_nothing [OF v]
    export_unknown_format_writes_nothing [OF j] s
  show ?thesis by blast
qed

end
